theory Spec2Isabelle
  imports Main
begin

section \<open>Bulk employee onboarding: a model of \<open>BulkOnboardingService\<close>\<close>

text \<open>
  The definitions follow \<open>src/services/claude-ai.js\<close> (class \<open>BulkOnboardingService\<close>),
  the onboarding routes of \<open>src/routes/analytics.js\<close>, the Redis wrapper of
  \<open>src/utils/redis.js\<close> and the tables of \<open>src/database/schema.sql\<close>.
  JavaScript strings are modelled as \<open>string\<close>; a value that may be \<open>undefined\<close> or
  \<open>null\<close> is an \<open>option\<close>; a thrown \<open>Error\<close> is the left summand of a sum type.
\<close>

subsection \<open>Batcher: \<open>createBatches\<close>\<close>

text \<open>\<open>Array.prototype.slice(b, e)\<close> for \<open>0 \<le> b \<le> e\<close>: the elements at the indices
  \<open>b, \<dots>, min e (length xs) - 1\<close>.\<close>

definition slice :: "'a list \<Rightarrow> nat \<Rightarrow> nat \<Rightarrow> 'a list" where
  "slice xs b e = take (e - b) (drop b xs)"

text \<open>
  \<^verbatim>\<open>for (let i = 0; i < array.length; i += batchSize) batches.push(array.slice(i, i + batchSize))\<close>
  The loop does not advance when \<open>batchSize\<close> is \<open>0\<close>, so it is a partial function:
  \<open>None\<close> stands for a loop that never returns.
\<close>

partial_function (option) createBatches_loop ::
  "'a list \<Rightarrow> nat \<Rightarrow> nat \<Rightarrow> 'a list list \<Rightarrow> 'a list list option" where
  "createBatches_loop array batchSize i batches =
     (if i < length array
      then createBatches_loop array batchSize (i + batchSize)
             (batches @ [slice array i (i + batchSize)])
      else Some batches)"

definition createBatches :: "'a list \<Rightarrow> nat \<Rightarrow> 'a list list option" where
  "createBatches array batchSize = createBatches_loop array batchSize 0 []"

subsection \<open>JavaScript values\<close>

text \<open>A thrown JavaScript error, or an error raised by PostgreSQL for a violated
  constraint (the argument is the message, respectively the name of the column or of
  the constraint).\<close>

datatype error =
    Error string
  | TypeError string
  | NotNullViolation string
  | CheckViolation string
  | UniqueViolation string
  | ForeignKeyViolation string

text \<open>Truthiness of a string that may be \<open>undefined\<close>: the empty string is falsy.\<close>

definition truthy :: "string option \<Rightarrow> bool" where
  "truthy s = (case s of None \<Rightarrow> False | Some v \<Rightarrow> v \<noteq> [])"

text \<open>\<open>String.prototype.toLowerCase\<close> on the ASCII letters: the codes \<open>65..90\<close>
  (\<open>A..Z\<close>) get bit 5 set, which adds \<open>32\<close>; every other character is kept.\<close>

definition toLowerChar :: "char \<Rightarrow> char" where
  "toLowerChar c =
     (let n = (of_char c :: nat)
      in if 65 \<le> n \<and> n \<le> 90
         then (case c of Char b0 b1 b2 b3 b4 b5 b6 b7 \<Rightarrow> Char b0 b1 b2 b3 b4 True b6 b7)
         else c)"

definition toLowerCase :: "string \<Rightarrow> string" where
  "toLowerCase s = map toLowerChar s"

text \<open>\<open>s.includes(sub)\<close>: \<open>sub\<close> occurs in \<open>s\<close> as a contiguous substring.\<close>

fun includes_str :: "string \<Rightarrow> string \<Rightarrow> bool" where
  "includes_str [] sub = (sub = [])"
| "includes_str (c # cs) sub = (take (length sub) (c # cs) = sub \<or> includes_str cs sub)"

text \<open>\<open>parts.join(sep)\<close>.\<close>

fun join :: "string \<Rightarrow> string list \<Rightarrow> string" where
  "join sep [] = []"
| "join sep [x] = x"
| "join sep (x # y # ys) = x @ sep @ join sep (y # ys)"

subsection \<open>Employee records (the result of \<open>normalizeEmployeeData\<close>)\<close>

record employee =
  email :: "string option"
  employeeId :: "string option"
  firstName :: "string option"
  lastName :: "string option"
  department :: "string option"
  role :: "string option"
  managerId :: "string option"
  location :: "string option"
  birthYear :: "int option"
  age :: "int option"  \<comment> \<open>\<open>None\<close> is \<open>null\<close> or \<open>NaN\<close>, both falsy like \<open>0\<close>\<close>
  gender :: "string option"
  maritalStatus :: "string option"
  hasDependents :: bool
  includeSpouse :: bool
  spouseEmail :: "string option"
  healthConditions :: "string list option"
  stressLevel :: "string option"
  customFields :: "(string \<times> string) list"

subsection \<open>RecommendationClient\<close>

text \<open>
  One recommendation \<open>{app, reason, priority, includeSpouse}\<close>. In a response of the AI
  capability a property may be missing or not be a string: that is \<open>None\<close>; the flag
  \<open>recIncludeSpouse\<close> is the truthiness of \<open>includeSpouse\<close>, the only way the code reads it.
\<close>

record recommendation =
  app :: "string option"
  reason :: "string option"
  priority :: "string option"
  recIncludeSpouse :: bool

definition validApps :: "string list" where
  "validApps =
     [''fertilitytracker'', ''pregnancycompanion'', ''postpartumsupport'',
      ''menowellness'', ''supportpartner'', ''myconfidant'',
      ''soberpal'', ''innerarchitect'']"

text \<open>
  What \<open>claudeAIService.getAppRecommendations\<close> returned, seen through the property
  \<open>recommendations\<close> of the parsed JSON value: no array there (\<open>NoArray\<close>), or an array
  whose elements are \<open>null\<close> (\<open>ItemNull\<close>) or values with properties (\<open>ItemObject\<close>).
  A failed call (no API key, network error, bad status, empty content, unparsable or
  \<open>null\<close> JSON) is \<open>Inl\<close> of the thrown error.
\<close>

datatype ai_item = ItemNull | ItemObject recommendation

datatype ai_value = NoArray | RecArray "ai_item list"

type_synonym ai_outcome = "error + ai_value"

text \<open>\<open>recommendations.filter(rec => validApps.includes(rec.app))\<close>: reading \<open>rec.app\<close> of
  a \<open>null\<close> element throws a \<open>TypeError\<close>.\<close>

fun filterValidApps :: "ai_item list \<Rightarrow> error + recommendation list" where
  "filterValidApps [] = Inr []"
| "filterValidApps (ItemNull # items) =
     Inl (TypeError ''Cannot read properties of null (reading 'app')'')"
| "filterValidApps (ItemObject r # items) =
     (case filterValidApps items of
        Inl e \<Rightarrow> Inl e
      | Inr rs \<Rightarrow>
          Inr (if (case app r of None \<Rightarrow> False | Some a \<Rightarrow> a \<in> set validApps)
               then r # rs else rs))"

definition validateRecommendations :: "ai_value \<Rightarrow> error + recommendation list" where
  "validateRecommendations recommendations =
     (case recommendations of
        NoArray \<Rightarrow> Inl (Error ''Invalid recommendation format'')
      | RecArray items \<Rightarrow>
          (case filterValidApps items of
             Inl e \<Rightarrow> Inl e
           | Inr rs \<Rightarrow> Inr (slice rs 0 3)))"

definition getFallbackRecommendations :: "employee \<Rightarrow> recommendation list" where
  "getFallbackRecommendations employee =
     (let r1 =
        (if (case age employee of None \<Rightarrow> False | Some a \<Rightarrow> a \<noteq> 0 \<and> a < 35)
            \<and> maritalStatus employee = Some ''married''
         then [\<lparr>app = Some ''fertilitytracker'',
                reason = Some ''Young married couple - fertility planning'',
                priority = Some ''high'', recIncludeSpouse = True\<rparr>]
         else []);
          r2 =
        (if (case age employee of None \<Rightarrow> False | Some a \<Rightarrow> a \<noteq> 0 \<and> a > 45)
            \<and> gender employee = Some ''female''
         then [\<lparr>app = Some ''menowellness'',
                reason = Some ''Perimenopausal/menopausal age range'',
                priority = Some ''high'', recIncludeSpouse = False\<rparr>]
              @ (if includeSpouse employee
                 then [\<lparr>app = Some ''supportpartner'',
                        reason = Some ''Partner support during menopause transition'',
                        priority = Some ''medium'', recIncludeSpouse = True\<rparr>]
                 else [])
         else []);
          r3 =
        (if (case department employee of
               None \<Rightarrow> False
             | Some d \<Rightarrow> d \<noteq> [] \<and> toLowerCase d \<in> set [''sales'', ''executive'', ''finance''])
         then [\<lparr>app = Some ''innerarchitect'',
                reason = Some ''High-stress department - personal development'',
                priority = Some ''medium'', recIncludeSpouse = False\<rparr>]
         else []);
          r4 =
        (if (case healthConditions employee of
               None \<Rightarrow> False
             | Some conditions \<Rightarrow>
                 list_ex (\<lambda>condition. includes_str (toLowerCase condition) ''addiction''
                                     \<or> includes_str (toLowerCase condition) ''alcohol'')
                         conditions)
         then [\<lparr>app = Some ''soberpal'',
                reason = Some ''Addiction recovery support'',
                priority = Some ''high'', recIncludeSpouse = False\<rparr>]
         else [])
      in slice (r1 @ r2 @ r3 @ r4) 0 3)"

text \<open>
  \<open>getAppRecommendations\<close>: the outcome of the call to the AI capability is the
  argument \<open>ai\<close>; every error of the call or of \<open>validateRecommendations\<close> is caught and
  answered by the fallback.
\<close>

definition getAppRecommendations :: "employee \<Rightarrow> string \<Rightarrow> ai_outcome \<Rightarrow> recommendation list" where
  "getAppRecommendations employee tenantId ai =
     (case ai of
        Inl e \<Rightarrow> getFallbackRecommendations employee
      | Inr recommendations \<Rightarrow>
          (case validateRecommendations recommendations of
             Inl e \<Rightarrow> getFallbackRecommendations employee
           | Inr recs \<Rightarrow> recs))"

subsection \<open>JobStore: onboarding sessions and batch statuses in Redis\<close>

record upload_options =
  sendWelcomeEmails :: "bool option"
  autoActivate :: "bool option"
  dryRun :: "bool option"

text \<open>
  The JSON object stored under \<open>onboarding:<onboardingId>\<close>. The properties that are only
  written by \<open>updateOnboardingSession\<close> are optional. \<open>batchIds\<close> is
  \<open>batchPromises.map(p => p.id)\<close>: a promise has no \<open>id\<close>, so every entry is
  \<open>undefined\<close>, stored as \<open>null\<close>.
\<close>

record session =
  tenantId :: string
  status :: string
  startTime :: nat
  filename :: string
  fileSize :: nat
  options :: upload_options
  totalEmployees :: "nat option"
  totalBatches :: "nat option"
  batchIds :: "string option list option"
  lastUpdate :: "nat option"
  error :: "string option"

text \<open>The JSON object stored under \<open>batch:<onboardingId>:<batchIndex>\<close>; \<open>batchState\<close> is
  its property \<open>status\<close>, \<open>batchError\<close> its property \<open>error\<close>.\<close>

record batch_status =
  batchState :: string
  processedCount :: "nat option"
  successCount :: "nat option"
  processingTimeMs :: "nat option"
  batchError :: "string option"

text \<open>
  The Redis client of \<open>src/utils/redis.js\<close>. The keys \<open>onboarding:<id>\<close> and
  \<open>batch:<id>:<index>\<close> never coincide and determine \<open>id\<close> and \<open>index\<close>, so the two
  families of keys are two maps. The expiry after 86400 seconds is not modelled.
  \<open>get\<close> answers \<open>null\<close> and \<open>set\<close> does nothing when the client is not connected;
  neither throws.
\<close>

record redis =
  isConnected :: bool
  onboardingKeys :: "string \<rightharpoonup> session"
  batchKeys :: "string \<times> nat \<rightharpoonup> batch_status"

definition getOnboardingKey :: "redis \<Rightarrow> string \<Rightarrow> session option" where
  "getOnboardingKey r onboardingId =
     (if isConnected r then onboardingKeys r onboardingId else None)"

definition setexOnboardingKey :: "redis \<Rightarrow> string \<Rightarrow> session \<Rightarrow> redis" where
  "setexOnboardingKey r onboardingId v =
     (if isConnected r then r\<lparr>onboardingKeys := (onboardingKeys r)(onboardingId \<mapsto> v)\<rparr> else r)"

definition getBatchKey :: "redis \<Rightarrow> string \<Rightarrow> nat \<Rightarrow> batch_status option" where
  "getBatchKey r onboardingId batchIndex =
     (if isConnected r then batchKeys r (onboardingId, batchIndex) else None)"

definition setexBatchKey :: "redis \<Rightarrow> string \<Rightarrow> nat \<Rightarrow> batch_status \<Rightarrow> redis" where
  "setexBatchKey r onboardingId batchIndex v =
     (if isConnected r
      then r\<lparr>batchKeys := (batchKeys r)((onboardingId, batchIndex) \<mapsto> v)\<rparr> else r)"

text \<open>\<open>createOnboardingSession(tenantId, onboardingId, {filename, fileSize, options})\<close>;
  \<open>now\<close> is the clock reading.\<close>

definition createOnboardingSession ::
  "string \<Rightarrow> string \<Rightarrow> string \<Rightarrow> nat \<Rightarrow> upload_options \<Rightarrow> nat \<Rightarrow> redis \<Rightarrow> redis" where
  "createOnboardingSession tenant onboardingId fname fsize opts now r =
     setexOnboardingKey r onboardingId
       \<lparr>tenantId = tenant, status = ''started'', startTime = now,
        filename = fname, fileSize = fsize, options = opts,
        totalEmployees = None, totalBatches = None, batchIds = None,
        lastUpdate = None, error = None\<rparr>"

text \<open>\<open>updateOnboardingSession\<close>: \<open>updates\<close> overwrites the properties it names
  (\<open>{...session, ...updates, lastUpdate}\<close>); nothing is written when the key is absent.\<close>

definition updateOnboardingSession ::
  "string \<Rightarrow> string \<Rightarrow> (session \<Rightarrow> session) \<Rightarrow> nat \<Rightarrow> redis \<Rightarrow> redis" where
  "updateOnboardingSession tenant onboardingId updates now r =
     (case getOnboardingKey r onboardingId of
        None \<Rightarrow> r
      | Some existing \<Rightarrow>
          setexOnboardingKey r onboardingId ((updates existing)\<lparr>lastUpdate := Some now\<rparr>))"

definition updateBatchStatus ::
  "string \<Rightarrow> string \<Rightarrow> nat \<Rightarrow> batch_status \<Rightarrow> redis \<Rightarrow> redis" where
  "updateBatchStatus tenant onboardingId batchIndex st r =
     setexBatchKey r onboardingId batchIndex st"

text \<open>\<^verbatim>\<open>for (let i = 0; i < sessionData.totalBatches; i++)\<close>: the batch statuses that
  are present, in index order.\<close>

function collectBatchStatuses ::
  "redis \<Rightarrow> string \<Rightarrow> nat \<Rightarrow> nat \<Rightarrow> batch_status list \<Rightarrow> batch_status list" where
  "collectBatchStatuses r onboardingId nBatches i acc =
     (if i < nBatches
      then collectBatchStatuses r onboardingId nBatches (Suc i)
             (case getBatchKey r onboardingId i of None \<Rightarrow> acc | Some b \<Rightarrow> acc @ [b])
      else acc)"
  by pat_completeness auto
termination
  by (relation "measure (\<lambda>(r, onboardingId, nBatches, i, acc). nBatches - i)") auto

declare collectBatchStatuses.simps [simp del]

record onboarding_status =
  sessionData :: session
  batchStatuses :: "batch_status list"
  completedBatches :: nat
  totalProcessed :: nat
  totalSuccessful :: nat

text \<open>\<open>getOnboardingStatus(tenantId, onboardingId)\<close>; the result is
  \<open>{...sessionData, batchStatuses, completedBatches, totalProcessed, totalSuccessful}\<close>.\<close>

definition getOnboardingStatus :: "string \<Rightarrow> string \<Rightarrow> redis \<Rightarrow> error + onboarding_status" where
  "getOnboardingStatus tenant onboardingId r =
     (case getOnboardingKey r onboardingId of
        None \<Rightarrow> Inl (Error ''Onboarding session not found'')
      | Some sd \<Rightarrow>
          (let bs = (case totalBatches sd of
                       None \<Rightarrow> []
                     | Some nBatches \<Rightarrow>
                         if nBatches \<noteq> 0 then collectBatchStatuses r onboardingId nBatches 0 [] else [])
           in Inr \<lparr>sessionData = sd,
                   batchStatuses = bs,
                   completedBatches = length (filter (\<lambda>b. batchState b = ''completed'') bs),
                   totalProcessed =
                     foldl (\<lambda>sum b. sum + (case processedCount b of None \<Rightarrow> 0 | Some c \<Rightarrow> c)) 0 bs,
                   totalSuccessful =
                     foldl (\<lambda>sum b. sum + (case successCount b of None \<Rightarrow> 0 | Some c \<Rightarrow> c)) 0 bs\<rparr>))"

text \<open>
  The body of the answer of \<open>GET /api/onboarding/status/:onboardingId\<close>
  (\<open>src/routes/analytics.js\<close>); an error of \<open>getOnboardingStatus\<close> is answered with
  status code 404 and the error's message. The rounded percentage, a floating-point
  value, is left out.
\<close>

record status_response =
  resOnboardingId :: string
  overallStatus :: string
  resCompletedBatches :: nat
  resTotalBatches :: "nat option"
  resTotalEmployees :: "nat option"
  resTotalProcessed :: nat
  resTotalSuccessful :: nat
  resTotalFailed :: int
  resStartTime :: nat
  resLastUpdate :: "nat option"
  batchDetails :: "batch_status list"

fun message :: "error \<Rightarrow> string" where
  "message (Error m) = m"
| "message (TypeError m) = m"
| "message (NotNullViolation c) = ''null value violates not-null constraint in column '' @ c"
| "message (CheckViolation c) = ''violates check constraint '' @ c"
| "message (UniqueViolation c) = ''duplicate key value violates unique constraint '' @ c"
| "message (ForeignKeyViolation c) = ''violates foreign key constraint '' @ c"

definition getStatusRoute :: "string \<Rightarrow> string \<Rightarrow> redis \<Rightarrow> (nat \<times> string) + status_response" where
  "getStatusRoute tenant onboardingId r =
     (case getOnboardingStatus tenant onboardingId r of
        Inl e \<Rightarrow> Inl (404, message e)
      | Inr st \<Rightarrow>
          Inr \<lparr>resOnboardingId = onboardingId,
               overallStatus =
                 (if (case totalBatches (sessionData st) of
                        None \<Rightarrow> False
                      | Some nBatches \<Rightarrow> completedBatches st = nBatches \<and> nBatches > 0)
                  then ''completed'' else status (sessionData st)),
               resCompletedBatches = completedBatches st,
               resTotalBatches = totalBatches (sessionData st),
               resTotalEmployees = totalEmployees (sessionData st),
               resTotalProcessed = totalProcessed st,
               resTotalSuccessful = totalSuccessful st,
               resTotalFailed = int (totalProcessed st) - int (totalSuccessful st),
               resStartTime = startTime (sessionData st),
               resLastUpdate = lastUpdate (sessionData st),
               batchDetails = batchStatuses st\<rparr>)"

subsection \<open>The database\<close>

text \<open>
  The rows of \<open>src/database/schema.sql\<close> that the onboarding service reads and writes,
  with the columns it uses. Row identifiers, generated by the database, are modelled as
  a counter. \<open>database.query\<close> throws when the pool is not connected, and returns the
  rows of the driver unchanged otherwise: a row is an object whose properties are the
  columns of the table, under the columns' names.
\<close>

record company =
  companyId :: string
  max_employees :: int

text \<open>
  The number a row of \<open>tenant_main.companies\<close> carries under a property name. The
  capacity limit is the column \<open>max_employees INTEGER NOT NULL\<close>; the table has no column
  \<open>maxEmployees\<close>, so that property of the row is \<open>undefined\<close>.
\<close>

definition numberProperty :: "company \<Rightarrow> string \<Rightarrow> int option" where
  "numberProperty t name = (if name = ''max_employees'' then Some (max_employees t) else None)"

record employee_row =
  employeeRowId :: nat
  company_id :: string
  employeeEmail :: string

record app_config =
  configPriority :: "string option"
  configReason :: "string option"
  autoProvisioned :: bool

record app_assignment =
  assignmentId :: nat
  employee_id :: nat
  app_name :: string
  access_level :: string
  appConfig :: app_config
  assignmentStatus :: string
  assigned_to_spouse :: bool
  spouse_email :: "string option"

record database =
  dbConnected :: bool
  companies :: "company list"
  employees :: "employee_row list"
  app_assignments :: "app_assignment list"
  nextId :: nat

definition getTenantConfig :: "string \<Rightarrow> database \<Rightarrow> error + company option" where
  "getTenantConfig tenant d =
     (if \<not> dbConnected d then Inl (Error ''Database not connected'')
      else Inr (find (\<lambda>c. companyId c = tenant) (companies d)))"

definition checkExistingEmployee ::
  "string \<Rightarrow> string \<Rightarrow> database \<Rightarrow> error + employee_row option" where
  "checkExistingEmployee tenant mail d =
     (if \<not> dbConnected d then Inl (Error ''Database not connected'')
      else Inr (find (\<lambda>row. company_id row = tenant \<and> employeeEmail row = mail) (employees d)))"

subsection \<open>Validator: \<open>validateEmployeeData\<close>\<close>

text \<open>The decimal numeral of a row number, as template literals print it.\<close>

fun string_of_nat :: "nat \<Rightarrow> string" where
  "string_of_nat n =
     (if n < 10 then [''0123456789'' ! n]
      else string_of_nat (n div 10) @ [''0123456789'' ! (n mod 10)])"

declare string_of_nat.simps [simp del]

text \<open>
  \<open>isValidEmail\<close> tests \<^verbatim>\<open>/^[^\s@]+@[^\s@]+\.[^\s@]+$/\<close>: a non-empty part without
  white space and \<open>@\<close>, then \<open>@\<close>, then a part without white space and \<open>@\<close> that has
  a dot with at least one character before and after it. Among the 8-bit characters
  \<open>\s\<close> matches the codes 9 to 13, 32 and 160.
\<close>

definition isSpaceOrAt :: "char \<Rightarrow> bool" where
  "isSpaceOrAt c =
     (c = CHR ''@'' \<or> (of_char c :: nat) \<in> {9, 10, 11, 12, 13, 32, 160})"

definition isValidEmail :: "string \<Rightarrow> bool" where
  "isValidEmail s =
     (let localPart = takeWhile (\<lambda>c. c \<noteq> CHR ''@'') s;
          rest = dropWhile (\<lambda>c. c \<noteq> CHR ''@'') s
      in localPart \<noteq> [] \<and> \<not> list_ex isSpaceOrAt localPart
         \<and> (case rest of
               [] \<Rightarrow> False
             | at # domainPart \<Rightarrow>
                 \<not> list_ex isSpaceOrAt domainPart
                 \<and> list_ex (\<lambda>i. domainPart ! i = CHR ''.'') [1..<length domainPart - 1]))"

text \<open>An accepted record is \<open>{...employee, rowIndex}\<close>; a rejected one is
  \<open>{rowIndex, employee, errors}\<close>.\<close>

record valid_employee =
  validRecord :: employee
  rowIndex :: nat

record invalid_employee =
  invalidRowIndex :: nat
  invalidRecord :: employee
  rowErrors :: "string list"

text \<open>
  The variables of the validation loop. The function returns
  \<open>{validEmployees, invalidEmployees, errors}\<close>; \<open>existenceChecks\<close> records the emails
  \<open>checkExistingEmployee\<close> was called with, in call order.
\<close>

record validation =
  validEmployees :: "valid_employee list"
  invalidEmployees :: "invalid_employee list"
  errors :: "string list"
  emailSet :: "string set"
  existenceChecks :: "string list"

text \<open>The end of the loop body: the row is accepted when it has no error.\<close>

definition recordRow :: "nat \<Rightarrow> employee \<Rightarrow> string list \<Rightarrow> validation \<Rightarrow> validation" where
  "recordRow index emp rowErrs st =
     (if rowErrs = []
      then st\<lparr>validEmployees := validEmployees st @ [\<lparr>validRecord = emp, rowIndex = index + 2\<rparr>]\<rparr>
      else st\<lparr>invalidEmployees := invalidEmployees st
                 @ [\<lparr>invalidRowIndex = index + 2, invalidRecord = emp, rowErrors = rowErrs\<rparr>],
              errors := errors st
                 @ [''Row '' @ string_of_nat (index + 2) @ '': '' @ join '', '' rowErrs]\<rparr>)"

text \<open>The entry of \<open>errors\<close> for a rejected row.\<close>

definition rowErrorLine :: "invalid_employee \<Rightarrow> string" where
  "rowErrorLine rejected =
     ''Row '' @ string_of_nat (invalidRowIndex rejected) @ '': ''
       @ join '', '' (rowErrors rejected)"

text \<open>The loop keeps \<open>errors\<close> in step with \<open>invalidEmployees\<close>: one entry per rejected row.\<close>

definition itemized :: "validation \<Rightarrow> bool" where
  "itemized st \<longleftrightarrow> errors st = map rowErrorLine (invalidEmployees st)"

text \<open>
  The loop body for the row at position \<open>index\<close>, check by check. First the email:
  required, well-formed, not seen before in this upload; an email that passes is added
  to \<open>emailSet\<close>.
\<close>

definition checkEmail :: "employee \<Rightarrow> string set \<Rightarrow> string list \<times> string set" where
  "checkEmail emp emails =
     (case email emp of
        None \<Rightarrow> ([''Email is required''], emails)
      | Some a \<Rightarrow>
          if a = [] then ([''Email is required''], emails)
          else if \<not> isValidEmail a then ([''Invalid email format''], emails)
          else if a \<in> emails then ([''Duplicate email address''], emails)
          else ([], insert a emails))"

definition checkNames :: "employee \<Rightarrow> string list" where
  "checkNames emp =
     (if \<not> truthy (firstName emp) then [''First name is required''] else [])
     @ (if \<not> truthy (lastName emp) then [''Last name is required''] else [])"

text \<open>\<open>if (employee.email) { existingEmployee = await this.checkExistingEmployee(...) }\<close>:
  the query is made for every row with an email, whatever the checks before it found.\<close>

definition checkExists ::
  "string \<Rightarrow> database \<Rightarrow> employee \<Rightarrow> string list \<Rightarrow> error + (string list \<times> string list)" where
  "checkExists tenantKey d emp checks =
     (case email emp of
        None \<Rightarrow> Inr ([], checks)
      | Some a \<Rightarrow>
          if a = [] then Inr ([], checks)
          else (case checkExistingEmployee tenantKey a d of
                  Inl e \<Rightarrow> Inl e
                | Inr existingEmployee \<Rightarrow>
                    Inr (if existingEmployee \<noteq> None then [''Employee already exists''] else [],
                         checks @ [a])))"

text \<open>\<open>tenant.maxEmployees && validEmployees.length >= tenant.maxEmployees\<close>, on the row
  \<open>getTenantConfig\<close> returned.\<close>

definition checkCapacity :: "company \<Rightarrow> valid_employee list \<Rightarrow> string list" where
  "checkCapacity t accepted =
     (if (case numberProperty t ''maxEmployees'' of
            None \<Rightarrow> False
          | Some m \<Rightarrow> m \<noteq> 0 \<and> int (length accepted) \<ge> m)
      then [''Exceeds tenant employee limit''] else [])"

text \<open>
  \<open>tenant\<close> is \<open>rows[0]\<close> of the tenant query, \<open>undefined\<close> when there is no such
  company: then reading \<open>tenant.maxEmployees\<close> throws.
\<close>

definition validateRow ::
  "company option \<Rightarrow> string \<Rightarrow> database \<Rightarrow> nat \<Rightarrow> employee \<Rightarrow> validation \<Rightarrow> error + validation" where
  "validateRow tenant tenantKey d index emp st =
     (case checkExists tenantKey d emp (existenceChecks st) of
        Inl e \<Rightarrow> Inl e
      | Inr (existsErrors, checks) \<Rightarrow>
          (case tenant of
             None \<Rightarrow>
               Inl (TypeError ''Cannot read properties of undefined (reading 'maxEmployees')'')
           | Some t \<Rightarrow>
               Inr (recordRow index emp
                      (fst (checkEmail emp (emailSet st)) @ checkNames emp @ existsErrors
                         @ checkCapacity t (validEmployees st))
                      (st\<lparr>emailSet := snd (checkEmail emp (emailSet st)),
                          existenceChecks := checks\<rparr>))))"

fun validateLoop ::
  "company option \<Rightarrow> string \<Rightarrow> database \<Rightarrow> nat \<Rightarrow> employee list \<Rightarrow> validation
     \<Rightarrow> error + validation" where
  "validateLoop tenant tenantKey d index [] st = Inr st"
| "validateLoop tenant tenantKey d index (emp # rest) st =
     (case validateRow tenant tenantKey d index emp st of
        Inl e \<Rightarrow> Inl e
      | Inr st' \<Rightarrow> validateLoop tenant tenantKey d (Suc index) rest st')"

definition validateEmployeeData :: "employee list \<Rightarrow> string \<Rightarrow> database \<Rightarrow> error + validation" where
  "validateEmployeeData emps tenantKey d =
     (case getTenantConfig tenantKey d of
        Inl e \<Rightarrow> Inl e
      | Inr tenant \<Rightarrow>
          validateLoop tenant tenantKey d 0 emps
            \<lparr>validEmployees = [], invalidEmployees = [], errors = [], emailSet = {},
             existenceChecks = []\<rparr>)"

subsection \<open>The upload entry point: \<open>processCSVUpload\<close>\<close>

text \<open>
  The uploaded file. \<open>parsed\<close> is what the CSV parser makes of \<open>csvFile.buffer\<close>: the
  message of the stream's error, or the rows after \<open>normalizeEmployeeData\<close>.
\<close>

record csv_file =
  originalname :: string
  csvSize :: nat
  parsed :: "string + employee list"

definition parseCSV :: "csv_file \<Rightarrow> error + employee list" where
  "parseCSV f =
     (case parsed f of
        Inl m \<Rightarrow> Inl (Error (''CSV parsing failed: '' @ m))
      | Inr rows \<Rightarrow> Inr rows)"

definition batchSize :: nat where
  "batchSize = 1000"

text \<open>A job added to the queue \<open>employee processing\<close> under the name
  \<open>process-employee-batch\<close>, with its options.\<close>

record batch_job =
  jobTenantId :: string
  jobOnboardingId :: string
  batchIndex :: nat
  jobEmployees :: "valid_employee list"
  jobOptions :: upload_options
  delay :: nat
  attempts :: nat
  backoff :: string

record world =
  redisStore :: redis
  dbStore :: database
  employeeQueue :: "batch_job list"

record upload_response =
  respOnboardingId :: string
  respStatus :: string
  respTotalEmployees :: nat
  respTotalBatches :: nat
  invalidRecords :: nat
  respProcessingTimeMs :: nat
  estimatedCompletionTime :: nat

text \<open>\<open>estimateCompletionTime\<close>, in milliseconds since the epoch.\<close>

definition estimateCompletionTime :: "nat \<Rightarrow> nat \<Rightarrow> nat" where
  "estimateCompletionTime employeeCount now = now + (employeeCount * 5) * 1000"

text \<open>The \<open>catch\<close> block of \<open>processCSVUpload\<close>: the session is marked failed and the
  error is thrown again.\<close>

definition uploadFailed ::
  "string \<Rightarrow> string \<Rightarrow> nat \<Rightarrow> world \<Rightarrow> error \<Rightarrow> ((error + upload_response) \<times> world) option" where
  "uploadFailed tenant onboardingId now w e =
     Some (Inl e,
           w\<lparr>redisStore :=
               updateOnboardingSession tenant onboardingId
                 (\<lambda>s. s\<lparr>status := ''failed'', error := Some (message e)\<rparr>) now (redisStore w)\<rparr>)"

text \<open>
  \<open>processCSVUpload(tenantId, csvFile, options)\<close>. All clock readings of one call are
  the one value \<open>now\<close>. The result is \<open>None\<close> if the call never returns, the thrown
  error or the response otherwise, with the state the call leaves behind. The function
  never reads \<open>options.dryRun\<close>.
\<close>

definition processCSVUpload ::
  "string \<Rightarrow> csv_file \<Rightarrow> upload_options \<Rightarrow> nat \<Rightarrow> world
     \<Rightarrow> ((error + upload_response) \<times> world) option" where
  "processCSVUpload tenant csvFile opts now w =
     (let onboardingId = ''onboarding_'' @ tenant @ ''_'' @ string_of_nat now;
          w1 = w\<lparr>redisStore :=
                   createOnboardingSession tenant onboardingId (originalname csvFile)
                     (csvSize csvFile) opts now (redisStore w)\<rparr>
      in case parseCSV csvFile of
           Inl e \<Rightarrow> uploadFailed tenant onboardingId now w1 e
         | Inr emps \<Rightarrow>
             (case validateEmployeeData emps tenant (dbStore w1) of
                Inl e \<Rightarrow> uploadFailed tenant onboardingId now w1 e
              | Inr validationResult \<Rightarrow>
                  if errors validationResult \<noteq> []
                  then uploadFailed tenant onboardingId now w1
                         (Error (''Validation failed: '' @ join '', '' (errors validationResult)))
                  else
                    (case createBatches (validEmployees validationResult) batchSize of
                       None \<Rightarrow> None
                     | Some batches \<Rightarrow>
                         (let jobs =
                                map (\<lambda>index.
                                       \<lparr>jobTenantId = tenant, jobOnboardingId = onboardingId,
                                        batchIndex = index, jobEmployees = batches ! index,
                                        jobOptions = opts, delay = index * 1000,
                                        attempts = 3, backoff = ''exponential''\<rparr>)
                                    [0..<length batches];
                              w2 = w1\<lparr>employeeQueue := employeeQueue w1 @ jobs\<rparr>;
                              w3 = w2\<lparr>redisStore :=
                                       updateOnboardingSession tenant onboardingId
                                         (\<lambda>s. s\<lparr>status := ''processing'',
                                                 totalEmployees :=
                                                   Some (length (validEmployees validationResult)),
                                                 totalBatches := Some (length batches),
                                                 batchIds :=
                                                   Some (map (\<lambda>p. None) jobs)\<rparr>)
                                         now (redisStore w2)\<rparr>
                          in Some (Inr \<lparr>respOnboardingId = onboardingId,
                                        respStatus = ''processing'',
                                        respTotalEmployees =
                                          length (validEmployees validationResult),
                                        respTotalBatches = length batches,
                                        invalidRecords =
                                          length (invalidEmployees validationResult),
                                        respProcessingTimeMs = now - now,
                                        estimatedCompletionTime =
                                          estimateCompletionTime
                                            (length (validEmployees validationResult)) now\<rparr>,
                                   w3)))))"

text \<open>The status of the session stored for an upload, read from the state directly.\<close>

definition sessionStatusOf :: "string \<Rightarrow> world \<Rightarrow> string option" where
  "sessionStatusOf onboardingId w =
     map_option status (onboardingKeys (redisStore w) onboardingId)"

subsection \<open>Provisioner\<close>

text \<open>The row returned by \<open>RETURNING id, app_name, access_level\<close>.\<close>

record assignment_result =
  resultId :: nat
  resultAppName :: string
  resultAccessLevel :: string

text \<open>
  \<open>createAppAssignment\<close> is one \<open>INSERT INTO tenant_main.app_assignments\<close>, with no
  \<open>ON CONFLICT\<close> clause. The table's constraints decide whether the row is stored:
  \<open>app_name NOT NULL\<close>, the check \<open>valid_app_name\<close>, the unique constraint
  \<open>unique_employee_app\<close> on \<open>(employee_id, app_name)\<close> and the foreign key to
  \<open>employees\<close>. The columns the statement does not name take their defaults.
\<close>

definition createAppAssignment ::
  "string \<Rightarrow> nat \<Rightarrow> recommendation \<Rightarrow> database \<Rightarrow> error + (assignment_result \<times> database)" where
  "createAppAssignment tenant empId recm d =
     (if \<not> dbConnected d then Inl (Error ''Database not connected'')
      else case app recm of
        None \<Rightarrow> Inl (NotNullViolation ''app_name'')
      | Some name \<Rightarrow>
          if name \<notin> set validApps then Inl (CheckViolation ''valid_app_name'')
          else if list_ex (\<lambda>row. employee_id row = empId \<and> app_name row = name)
                    (app_assignments d)
          then Inl (UniqueViolation ''unique_employee_app'')
          else if \<not> list_ex (\<lambda>row. employeeRowId row = empId) (employees d)
          then Inl (ForeignKeyViolation ''app_assignments_employee_id_fkey'')
          else Inr (\<lparr>resultId = nextId d, resultAppName = name, resultAccessLevel = ''basic''\<rparr>,
                    d\<lparr>app_assignments := app_assignments d
                         @ [\<lparr>assignmentId = nextId d, employee_id = empId, app_name = name,
                             access_level = ''basic'',
                             appConfig = \<lparr>configPriority = priority recm,
                                          configReason = reason recm,
                                          autoProvisioned = True\<rparr>,
                             assignmentStatus = ''active'', assigned_to_spouse = False,
                             spouse_email = None\<rparr>],
                       nextId := Suc (nextId d)\<rparr>))"

text \<open>
  \<open>provisionAppAccess\<close> calls \<open>this.createSpouseAppAssignment(tenantId, employeeId, rec,
  employee.spouseEmail)\<close>, but the class \<open>BulkOnboardingService\<close> defines no method of
  that name: the property is \<open>undefined\<close> and the call throws a \<open>TypeError\<close>.
\<close>

definition createSpouseAppAssignment ::
  "string \<Rightarrow> nat \<Rightarrow> recommendation \<Rightarrow> string option \<Rightarrow> database
     \<Rightarrow> error + (assignment_result \<times> database)" where
  "createSpouseAppAssignment tenant empId recm spouse d =
     Inl (TypeError ''this.createSpouseAppAssignment is not a function'')"

text \<open>The variables of the loop of \<open>provisionAppAccess\<close>: the assignments collected so
  far, the database, and the errors caught and logged.\<close>

record provisioning =
  assignments :: "assignment_result list"
  provisionedDb :: database
  loggedErrors :: "error list"

fun provisionLoop ::
  "string \<Rightarrow> nat \<Rightarrow> employee \<Rightarrow> recommendation list \<Rightarrow> provisioning \<Rightarrow> provisioning" where
  "provisionLoop tenant empId emp [] st = st"
| "provisionLoop tenant empId emp (recm # rest) st =
     provisionLoop tenant empId emp rest
       (case createAppAssignment tenant empId recm (provisionedDb st) of
          Inl e \<Rightarrow> st\<lparr>loggedErrors := loggedErrors st @ [e]\<rparr>
        | Inr (assignment, d1) \<Rightarrow>
            (let st1 = st\<lparr>assignments := assignments st @ [assignment], provisionedDb := d1\<rparr>
             in if recIncludeSpouse recm \<and> truthy (spouseEmail emp)
                then (case createSpouseAppAssignment tenant empId recm (spouseEmail emp) d1 of
                        Inl e \<Rightarrow> st1\<lparr>loggedErrors := loggedErrors st1 @ [e]\<rparr>
                      | Inr (spouseAssignment, d2) \<Rightarrow>
                          st1\<lparr>assignments := assignments st1 @ [spouseAssignment],
                              provisionedDb := d2\<rparr>)
                else st1))"

definition provisionAppAccess ::
  "string \<Rightarrow> nat \<Rightarrow> recommendation list \<Rightarrow> employee \<Rightarrow> database \<Rightarrow> provisioning" where
  "provisionAppAccess tenant empId recommendations emp d =
     provisionLoop tenant empId emp recommendations
       \<lparr>assignments = [], provisionedDb = d, loggedErrors = []\<rparr>"

subsection \<open>Example data\<close>

definition rosterEmployee :: "string \<Rightarrow> employee" where
  "rosterEmployee e =
     \<lparr>email = Some e, employeeId = None, firstName = Some ''Ada'', lastName = Some ''Doe'',
      department = None, role = None, managerId = None, location = None, birthYear = None,
      age = None, gender = None, maritalStatus = None, hasDependents = False,
      includeSpouse = False, spouseEmail = None, healthConditions = None,
      stressLevel = None, customFields = []\<rparr>"

definition menopauseEmployee :: employee where
  "menopauseEmployee =
     (rosterEmployee ''ada@x.com'')
       \<lparr>age := Some 50, gender := Some ''female'', includeSpouse := True,
        spouseEmail := Some ''sam@x.com''\<rparr>"

definition exampleDatabase :: database where
  "exampleDatabase =
     \<lparr>dbConnected = True,
      companies = [\<lparr>companyId = ''acme'', max_employees = 500\<rparr>],
      employees = [\<lparr>employeeRowId = 7, company_id = ''acme'', employeeEmail = ''old@x.com''\<rparr>],
      app_assignments = [],
      nextId = 100\<rparr>"

definition exampleWorld :: world where
  "exampleWorld =
     \<lparr>redisStore = \<lparr>isConnected = True, onboardingKeys = Map.empty, batchKeys = Map.empty\<rparr>,
      dbStore = exampleDatabase,
      employeeQueue = []\<rparr>"

definition exampleCsv :: "employee list \<Rightarrow> csv_file" where
  "exampleCsv rows = \<lparr>originalname = ''roster.csv'', csvSize = 2048, parsed = Inr rows\<rparr>"

definition exampleSession :: session where
  "exampleSession =
     \<lparr>tenantId = ''acme'', status = ''processing'', startTime = 5,
      filename = ''roster.csv'', fileSize = 2048,
      options = \<lparr>sendWelcomeEmails = None, autoActivate = None, dryRun = None\<rparr>,
      totalEmployees = Some 1500, totalBatches = Some 2,
      batchIds = Some [None, None], lastUpdate = Some 6, error = None\<rparr>"

definition completedBatch :: batch_status where
  "completedBatch =
     \<lparr>batchState = ''completed'', processedCount = Some 1000, successCount = Some 999,
      processingTimeMs = Some 40, batchError = None\<rparr>"

definition failedBatch :: batch_status where
  "failedBatch =
     \<lparr>batchState = ''failed'', processedCount = None, successCount = None,
      processingTimeMs = None, batchError = Some ''Database not connected''\<rparr>"

definition exampleStore :: "batch_status \<Rightarrow> batch_status \<Rightarrow> redis" where
  "exampleStore b0 b1 =
     \<lparr>isConnected = True,
      onboardingKeys = [''job1'' \<mapsto> exampleSession],
      batchKeys = [(''job1'', 0) \<mapsto> b0, (''job1'', 1) \<mapsto> b1]\<rparr>"

definition capacityOne :: database where
  "capacityOne = exampleDatabase\<lparr>companies := [\<lparr>companyId = ''acme'', max_employees = 1\<rparr>]\<rparr>"

definition soberRec :: "string \<Rightarrow> recommendation" where
  "soberRec p = \<lparr>app = Some ''soberpal'', reason = Some ''Addiction recovery support'',
                  priority = Some p, recIncludeSpouse = False\<rparr>"

definition partnerRec :: recommendation where
  "partnerRec = \<lparr>app = Some ''supportpartner'',
                  reason = Some ''Partner support during menopause transition'',
                  priority = Some ''medium'', recIncludeSpouse = True\<rparr>"

definition noOptions :: upload_options where
  "noOptions = \<lparr>sendWelcomeEmails = None, autoActivate = None, dryRun = None\<rparr>"

definition mixedRoster :: "employee list" where
  "mixedRoster = [rosterEmployee ''ada@x.com'', (rosterEmployee ''bob@x.com'')\<lparr>email := None\<rparr>]"

definition mixedUpload :: "((error + upload_response) \<times> world) option" where
  "mixedUpload = processCSVUpload ''acme'' (exampleCsv mixedRoster) noOptions 5 exampleWorld"

definition dryRunUpload :: "((error + upload_response) \<times> world) option" where
  "dryRunUpload =
     processCSVUpload ''acme'' (exampleCsv [rosterEmployee ''ada@x.com''])
       \<lparr>sendWelcomeEmails = None, autoActivate = None, dryRun = Some True\<rparr> 5 exampleWorld"

definition capacityValidation :: "error + validation" where
  "capacityValidation =
     validateEmployeeData
       [rosterEmployee ''ada@x.com'', rosterEmployee ''bob@x.com'', rosterEmployee ''cy@x.com'']
       ''acme'' capacityOne"

definition firstProvision :: provisioning where
  "firstProvision =
     provisionAppAccess ''acme'' 7 [soberRec ''high''] (rosterEmployee ''old@x.com'')
       exampleDatabase"

definition secondProvision :: provisioning where
  "secondProvision =
     provisionAppAccess ''acme'' 7 [soberRec ''low''] (rosterEmployee ''old@x.com'')
       (provisionedDb firstProvision)"

section \<open>Properties\<close>

subsection \<open>The batcher\<close>

lemma ceil_shift:
  fixes n b :: nat
  assumes "0 < b" "0 < n"
  shows "(n + b - 1) div b = Suc ((n - 1) div b)"
proof -
  have eq: "n + b - 1 = (n - 1) + b" using assms by simp
  have "b \<noteq> 0" using assms by simp
  then have "(n - 1 + b) div b = (n - 1) div b + 1" by (rule div_add_self2)
  then show ?thesis by (simp only: eq Suc_eq_plus1)
qed

lemma ceil_step:
  fixes n b :: nat
  assumes "0 < b" "0 < n"
  shows "(n + b - 1) div b = Suc ((n - b + b - 1) div b)"
proof (cases "b \<le> n")
  case True
  then have "n - b + b - 1 = n - 1" by simp
  then show ?thesis using ceil_shift[OF assms] by simp
next
  case False
  then have "n - b + b - 1 = b - 1" "n - 1 < b" by simp_all
  then show ?thesis using ceil_shift[OF assms] assms by simp
qed

lemma ceil_cover:
  fixes n b :: nat
  assumes "0 < b"
  shows "n \<le> (n + b - 1) div b * b"
proof (cases "n = 0")
  case True then show ?thesis by simp
next
  case False
  then have n: "0 < n" by simp
  have "n - 1 = (n - 1) div b * b + (n - 1) mod b" by simp
  moreover have "(n - 1) mod b < b" using assms by simp
  ultimately have "n - 1 < (n - 1) div b * b + b" by linarith
  then have "n \<le> Suc ((n - 1) div b) * b" using n by simp
  then show ?thesis using ceil_shift[OF assms n] by simp
qed

text \<open>The loop started at index \<open>i\<close> appends the slices at \<open>i, i + b, i + 2 b, \<dots>\<close>.\<close>

lemma createBatches_loop_eq:
  assumes "0 < b"
  shows "createBatches_loop xs b i acc =
         Some (acc @ map (\<lambda>k. slice xs (i + k * b) (i + k * b + b))
                        [0..<(length xs - i + b - 1) div b])"
proof (induction "length xs - i" arbitrary: i acc rule: less_induct)
  case less
  show ?case
  proof (cases "i < length xs")
    case True
    have dec: "length xs - (i + b) < length xs - i" using True assms by simp
    have pos: "0 < length xs - i" using True by simp
    have cd: "(length xs - i + b - 1) div b = Suc ((length xs - (i + b) + b - 1) div b)"
      using ceil_step[OF assms pos] by (simp only: diff_diff_left)
    have shift: "map (\<lambda>k. slice xs (i + k * b) (i + k * b + b)) [0..<Suc m] =
        slice xs i (i + b) # map (\<lambda>k. slice xs (i + b + k * b) (i + b + k * b + b)) [0..<m]" for m
      by (simp only: upt_conv_Cons[of 0 "Suc m"] map_Suc_upt[symmetric] list.map map_map o_def)
         (simp add: ac_simps)
    have "createBatches_loop xs b i acc =
          createBatches_loop xs b (i + b) (acc @ [slice xs i (i + b)])"
      using True by (subst createBatches_loop.simps) simp
    also have "\<dots> = Some ((acc @ [slice xs i (i + b)]) @
        map (\<lambda>k. slice xs (i + b + k * b) (i + b + k * b + b))
            [0..<(length xs - (i + b) + b - 1) div b])"
      by (rule less[OF dec])
    also have "\<dots> = Some (acc @ map (\<lambda>k. slice xs (i + k * b) (i + k * b + b))
                                   [0..<(length xs - i + b - 1) div b])"
      by (simp only: cd shift append_assoc append_Cons append_Nil)
    finally show ?thesis .
  next
    case False
    then have "length xs - i = 0" by simp
    then have "(length xs - i + b - 1) div b = 0" using assms by simp
    then show ?thesis using False
      by (subst createBatches_loop.simps) simp
  qed
qed

lemma createBatches_eq:
  assumes "0 < b"
  shows "createBatches xs b =
         Some (map (\<lambda>k. slice xs (k * b) (k * b + b)) [0..<(length xs + b - 1) div b])"
  using createBatches_loop_eq[OF assms, of xs 0 "[]"] by (simp add: createBatches_def)

lemma concat_slices:
  "concat (map (\<lambda>k. slice xs (k * b) (k * b + b)) [0..<n]) = take (n * b) xs"
proof (induction n)
  case 0 show ?case by simp
next
  case (Suc n)
  have "take (n * b) xs @ take b (drop (n * b) xs) = take (n * b + b) xs"
    by (simp add: take_add)
  then show ?case using Suc by (simp add: slice_def add.commute)
qed

text \<open>
  Claim C7. For every list \<open>accepted\<close> of valid employees and every positive batch
  size \<open>bsize\<close>, \<open>createBatches\<close> returns, and returns exactly
  \<open>ceil (|accepted| / bsize)\<close> batches; batch \<open>k\<close> is the contiguous slice of the input
  that starts at index \<open>k * bsize\<close>, and the batches concatenated in index order give
  back the input.
\<close>

theorem createBatches_partition:
  assumes "0 < bsize"
  shows "\<exists>batches. createBatches accepted bsize = Some batches
           \<and> length batches = (length accepted + bsize - 1) div bsize
           \<and> (\<forall>k < length batches.
                 batches ! k = slice accepted (k * bsize) (k * bsize + bsize))
           \<and> concat batches = accepted"
proof -
  let ?n = "(length accepted + bsize - 1) div bsize"
  let ?bs = "map (\<lambda>k. slice accepted (k * bsize) (k * bsize + bsize)) [0..<?n]"
  have "createBatches accepted bsize = Some ?bs"
    by (rule createBatches_eq[OF assms])
  moreover have "length ?bs = ?n" by simp
  moreover have "\<forall>k < length ?bs.
      ?bs ! k = slice accepted (k * bsize) (k * bsize + bsize)"
    by simp
  moreover have "concat ?bs = accepted"
    using ceil_cover[OF assms, of "length accepted"] by (simp add: concat_slices)
  ultimately show ?thesis by blast
qed

theorem createBatches_partition_witness:
  "0 < (2::nat) \<and> (\<exists>batches. createBatches [1, 2, 3, 4, 5 :: nat] 2 = Some batches
      \<and> length batches = 3 \<and> concat batches = [1, 2, 3, 4, 5])"
proof -
  have pos: "0 < (2::nat)" by simp
  from createBatches_partition[OF pos, of "[1, 2, 3, 4, 5 :: nat]"]
  obtain batches where "createBatches [1, 2, 3, 4, 5 :: nat] 2 = Some batches"
    and "length batches = (length [1, 2, 3, 4, 5 :: nat] + 2 - 1) div 2"
    and "concat batches = [1, 2, 3, 4, 5]"
    by blast
  then show ?thesis by simp
qed

subsection \<open>The recommendation client\<close>

lemma slice_0_subset: "set (slice xs 0 n) \<subseteq> set xs"
  by (simp add: slice_def set_take_subset)

lemma slice_0_length: "length (slice xs 0 n) \<le> n"
  by (simp add: slice_def)

lemma filterValidApps_catalog:
  "filterValidApps items = Inr rs \<Longrightarrow> \<forall>r \<in> set rs. \<exists>a \<in> set validApps. app r = Some a"
proof (induction items arbitrary: rs rule: filterValidApps.induct)
  case 1
  then show ?case by simp
next
  case (2 items)
  then show ?case by simp
next
  case (3 r items)
  then show ?case
    by (auto split: sum.splits option.splits if_splits)
qed

lemma fallback_catalog:
  "\<forall>r \<in> set (getFallbackRecommendations employee). \<exists>a \<in> set validApps. app r = Some a"
proof -
  have "\<forall>r \<in> set (slice xs 0 3). \<exists>a \<in> set validApps. app r = Some a"
    if "\<forall>r \<in> set xs. \<exists>a \<in> set validApps. app r = Some a" for xs :: "recommendation list"
    using that slice_0_subset[of xs 3] by blast
  then show ?thesis
    unfolding getFallbackRecommendations_def Let_def
    by (rule meta_mp) (auto simp: validApps_def)
qed

lemma fallback_length: "length (getFallbackRecommendations employee) \<le> 3"
  unfolding getFallbackRecommendations_def Let_def by (rule slice_0_length)

text \<open>
  Claim C8. For every employee profile and every outcome of the call to the AI
  capability, the list \<open>getAppRecommendations\<close> hands to provisioning has at most three
  entries and every entry names an app of the fixed catalog: entries of the AI's answer
  outside the catalog are dropped, and the fallback produces catalog apps only.
\<close>

theorem recommendations_in_catalog:
  "length (getAppRecommendations employee tenant ai) \<le> 3
   \<and> (\<forall>r \<in> set (getAppRecommendations employee tenant ai).
         \<exists>a \<in> set validApps. app r = Some a)"
proof (cases "\<exists>recs. ai = Inr (RecArray recs) \<and> (\<exists>rs. filterValidApps recs = Inr rs)")
  case True
  then obtain items rs where ai: "ai = Inr (RecArray items)" and f: "filterValidApps items = Inr rs"
    by blast
  have res: "getAppRecommendations employee tenant ai = slice rs 0 3"
    by (simp add: getAppRecommendations_def validateRecommendations_def ai f)
  show ?thesis
    unfolding res using filterValidApps_catalog[OF f] slice_0_subset[of rs 3] slice_0_length[of rs 3]
    by blast
next
  case False
  then have "getAppRecommendations employee tenant ai = getFallbackRecommendations employee"
    by (auto simp: getAppRecommendations_def validateRecommendations_def
             split: sum.splits ai_value.splits)
  then show ?thesis using fallback_catalog[of employee] fallback_length[of employee] by simp
qed

text \<open>The AI answers with an app outside the catalog and one inside it: only the
  second reaches provisioning.\<close>

theorem recommendations_in_catalog_witness:
  "getAppRecommendations (rosterEmployee ''ada@x.com'') ''acme''
     (Inr (RecArray
        [ItemObject \<lparr>app = Some ''cryptominer'', reason = None, priority = Some ''high'',
                      recIncludeSpouse = False\<rparr>,
         ItemObject \<lparr>app = Some ''soberpal'', reason = None, priority = Some ''low'',
                      recIncludeSpouse = False\<rparr>]))
   = [\<lparr>app = Some ''soberpal'', reason = None, priority = Some ''low'',
        recIncludeSpouse = False\<rparr>]
   \<and> ''soberpal'' \<in> set validApps \<and> ''cryptominer'' \<notin> set validApps"
  using recommendations_in_catalog[of "rosterEmployee ''ada@x.com''" "''acme''"
      "Inr (RecArray
        [ItemObject \<lparr>app = Some ''cryptominer'', reason = None, priority = Some ''high'',
                      recIncludeSpouse = False\<rparr>,
         ItemObject \<lparr>app = Some ''soberpal'', reason = None, priority = Some ''low'',
                      recIncludeSpouse = False\<rparr>])"]
  by (simp add: getAppRecommendations_def validateRecommendations_def validApps_def slice_def)

text \<open>
  Claim C9, as amended. For an employee of age 50, gender female, with
  \<open>includeSpouse\<close> set and a spouse email, when the call to the AI capability fails,
  \<open>getAppRecommendations\<close> returns the fallback list, which starts with
  \<open>menowellness\<close> (priority high) followed by \<open>supportpartner\<close> (priority medium,
  \<open>includeSpouse\<close> true). These two are the whole list unless the department,
  lower-cased, is sales, executive or finance (then \<open>innerarchitect\<close> is third) or,
  failing that, a health condition mentions addiction or alcohol (then \<open>soberpal\<close> is
  third). The fallback is a function of the employee record alone.
\<close>

theorem fallback_menopause_spouse:
  assumes "age employee = Some 50" and "gender employee = Some ''female''"
    and "includeSpouse employee" and "truthy (spouseEmail employee)"
  shows "getAppRecommendations employee tenant (Inl err) =
     [\<lparr>app = Some ''menowellness'', reason = Some ''Perimenopausal/menopausal age range'',
       priority = Some ''high'', recIncludeSpouse = False\<rparr>,
      \<lparr>app = Some ''supportpartner'',
       reason = Some ''Partner support during menopause transition'',
       priority = Some ''medium'', recIncludeSpouse = True\<rparr>]
     @ (if (case department employee of
              None \<Rightarrow> False
            | Some d \<Rightarrow> d \<noteq> [] \<and> toLowerCase d \<in> set [''sales'', ''executive'', ''finance''])
        then [\<lparr>app = Some ''innerarchitect'',
               reason = Some ''High-stress department - personal development'',
               priority = Some ''medium'', recIncludeSpouse = False\<rparr>]
        else if (case healthConditions employee of
                   None \<Rightarrow> False
                 | Some conditions \<Rightarrow>
                     list_ex (\<lambda>condition. includes_str (toLowerCase condition) ''addiction''
                                         \<or> includes_str (toLowerCase condition) ''alcohol'')
                             conditions)
        then [\<lparr>app = Some ''soberpal'', reason = Some ''Addiction recovery support'',
               priority = Some ''high'', recIncludeSpouse = False\<rparr>]
        else [])"
  using assms
  by (simp add: getAppRecommendations_def getFallbackRecommendations_def slice_def)

theorem fallback_menopause_spouse_witness:
  "age menopauseEmployee = Some 50 \<and> gender menopauseEmployee = Some ''female''
   \<and> includeSpouse menopauseEmployee \<and> truthy (spouseEmail menopauseEmployee)
   \<and> getAppRecommendations menopauseEmployee ''acme'' (Inl (Error ''fetch failed'')) =
     [\<lparr>app = Some ''menowellness'', reason = Some ''Perimenopausal/menopausal age range'',
       priority = Some ''high'', recIncludeSpouse = False\<rparr>,
      \<lparr>app = Some ''supportpartner'',
       reason = Some ''Partner support during menopause transition'',
       priority = Some ''medium'', recIncludeSpouse = True\<rparr>]"
proof -
  have a: "age menopauseEmployee = Some 50" by (simp add: menopauseEmployee_def rosterEmployee_def)
  have g: "gender menopauseEmployee = Some ''female''"
    by (simp add: menopauseEmployee_def rosterEmployee_def)
  have i: "includeSpouse menopauseEmployee" by (simp add: menopauseEmployee_def rosterEmployee_def)
  have s: "truthy (spouseEmail menopauseEmployee)"
    by (simp add: menopauseEmployee_def rosterEmployee_def truthy_def)
  have d: "department menopauseEmployee = None" "healthConditions menopauseEmployee = None"
    by (simp_all add: menopauseEmployee_def rosterEmployee_def)
  show ?thesis
    using fallback_menopause_spouse[OF a g i s, of "''acme''" "Error ''fetch failed''"] a g i s
    by (simp add: d)
qed

text \<open>The claim as stated fails for such an employee of the sales department: the
  fallback returns three entries, not exactly the two.\<close>

theorem fallback_menopause_sales_counterexample:
  "age (menopauseEmployee\<lparr>department := Some ''Sales''\<rparr>) = Some 50
   \<and> gender (menopauseEmployee\<lparr>department := Some ''Sales''\<rparr>) = Some ''female''
   \<and> includeSpouse (menopauseEmployee\<lparr>department := Some ''Sales''\<rparr>)
   \<and> spouseEmail (menopauseEmployee\<lparr>department := Some ''Sales''\<rparr>) = Some ''sam@x.com''
   \<and> getAppRecommendations (menopauseEmployee\<lparr>department := Some ''Sales''\<rparr>) ''acme''
        (Inl (Error ''fetch failed'')) \<noteq>
     [\<lparr>app = Some ''menowellness'', reason = Some ''Perimenopausal/menopausal age range'',
       priority = Some ''high'', recIncludeSpouse = False\<rparr>,
      \<lparr>app = Some ''supportpartner'',
       reason = Some ''Partner support during menopause transition'',
       priority = Some ''medium'', recIncludeSpouse = True\<rparr>]
   \<and> map app (getAppRecommendations (menopauseEmployee\<lparr>department := Some ''Sales''\<rparr>) ''acme''
        (Inl (Error ''fetch failed''))) =
     [Some ''menowellness'', Some ''supportpartner'', Some ''innerarchitect'']"
  by (simp add: menopauseEmployee_def rosterEmployee_def getAppRecommendations_def
        getFallbackRecommendations_def slice_def toLowerCase_def toLowerChar_def)

subsection \<open>The job status query\<close>

lemma collectBatchStatuses_eq:
  "collectBatchStatuses r oid n i acc = acc @ List.map_filter (getBatchKey r oid) [i..<n]"
proof (induction r oid n i acc rule: collectBatchStatuses.induct)
  case (1 r oid n i acc)
  show ?case
  proof (cases "i < n")
    case True
    then show ?thesis
      using "1.IH"[OF True]
      by (subst collectBatchStatuses.simps)
         (simp add: upt_conv_Cons map_filter_simps split: option.splits)
  next
    case False
    then show ?thesis
      by (subst collectBatchStatuses.simps) (simp add: map_filter_simps)
  qed
qed

lemma length_filter_map_filter_le:
  "length (filter P (List.map_filter f xs)) \<le> length xs"
proof (induction xs)
  case Nil
  show ?case by (simp add: map_filter_simps)
next
  case (Cons x xs)
  then show ?case by (simp add: map_filter_simps split: option.splits)
qed

lemma length_filter_map_filter_full:
  "length (filter P (List.map_filter f xs)) = length xs
   \<longleftrightarrow> (\<forall>x \<in> set xs. \<exists>b. f x = Some b \<and> P b)"
proof (induction xs)
  case Nil
  show ?case by (simp add: map_filter_simps)
next
  case (Cons x xs)
  have le: "length (filter P (List.map_filter f xs)) \<le> length xs"
    by (rule length_filter_map_filter_le)
  show ?case
  proof (cases "f x")
    case None
    then show ?thesis using le by (simp add: map_filter_simps)
  next
    case (Some b)
    then show ?thesis using le Cons.IH by (simp add: map_filter_simps)
  qed
qed

lemma getOnboardingStatus_completed:
  assumes "isConnected r" and "onboardingKeys r oid = Some s" and "totalBatches s = Some n"
  shows "\<exists>st. getOnboardingStatus t oid r = Inr st \<and> sessionData st = s
           \<and> (completedBatches st = n \<longleftrightarrow>
                (\<forall>i < n. \<exists>b. batchKeys r (oid, i) = Some b \<and> batchState b = ''completed''))"
proof -
  have key: "getBatchKey r oid = (\<lambda>i. batchKeys r (oid, i))"
    using assms(1) by (simp add: getBatchKey_def fun_eq_iff)
  have full: "length (filter (\<lambda>b. batchState b = ''completed'')
                  (List.map_filter (\<lambda>i. batchKeys r (oid, i)) [0..<n])) = n
      \<longleftrightarrow> (\<forall>i < n. \<exists>b. batchKeys r (oid, i) = Some b \<and> batchState b = ''completed'')"
    using length_filter_map_filter_full[of "\<lambda>b. batchState b = ''completed''"
        "\<lambda>i. batchKeys r (oid, i)" "[0..<n]"]
    by (auto simp: Ball_def)
  show ?thesis
  proof (cases "n = 0")
    case True
    then show ?thesis using assms
      by (simp add: getOnboardingStatus_def getOnboardingKey_def)
  next
    case False
    then show ?thesis using assms full
      by (simp add: getOnboardingStatus_def getOnboardingKey_def collectBatchStatuses_eq key
            Let_def)
  qed
qed

text \<open>
  Claim C6, as amended. For every stored job with \<open>totalBatches = n\<close>, the status query
  reports the job as \<open>completed\<close> exactly when \<open>n > 0\<close> and each of the \<open>n\<close> batches has
  the status \<open>completed\<close>; otherwise it reports the status stored in the session. So a
  job all of whose batches are terminal is reported \<open>completed\<close> only if none of them
  \<open>failed\<close>: a failed batch keeps the stored status (\<open>processing\<close> after an upload).
\<close>

theorem status_completed_iff_all_batches_completed:
  assumes "isConnected r" and "onboardingKeys r oid = Some s" and "totalBatches s = Some n"
  shows "\<exists>resp. getStatusRoute t oid r = Inr resp
           \<and> overallStatus resp =
               (if 0 < n \<and> (\<forall>i < n. \<exists>b. batchKeys r (oid, i) = Some b
                                        \<and> batchState b = ''completed'')
                then ''completed'' else status s)"
proof -
  from getOnboardingStatus_completed[OF assms, of t]
  obtain st where st: "getOnboardingStatus t oid r = Inr st" and sd: "sessionData st = s"
    and iff: "completedBatches st = n \<longleftrightarrow>
                (\<forall>i < n. \<exists>b. batchKeys r (oid, i) = Some b \<and> batchState b = ''completed'')"
    by blast
  show ?thesis
    using iff by (auto simp add: getStatusRoute_def st sd assms(3))
qed

theorem status_completed_witness:
  "isConnected (exampleStore completedBatch completedBatch)
   \<and> onboardingKeys (exampleStore completedBatch completedBatch) ''job1'' = Some exampleSession
   \<and> totalBatches exampleSession = Some 2
   \<and> (\<exists>resp. getStatusRoute ''acme'' ''job1'' (exampleStore completedBatch completedBatch) = Inr resp
             \<and> overallStatus resp = ''completed'')"
proof -
  have c: "isConnected (exampleStore completedBatch completedBatch)"
    by (simp add: exampleStore_def)
  have k: "onboardingKeys (exampleStore completedBatch completedBatch) ''job1'' = Some exampleSession"
    by (simp add: exampleStore_def)
  have n: "totalBatches exampleSession = Some 2" by (simp add: exampleSession_def)
  have all: "\<forall>i < 2. \<exists>b. batchKeys (exampleStore completedBatch completedBatch) (''job1'', i) = Some b
                          \<and> batchState b = ''completed''"
    by (simp add: exampleStore_def completedBatch_def less_Suc_eq numeral_2_eq_2)
  show ?thesis
    using status_completed_iff_all_batches_completed[OF c k n, of "''acme''"] c k n all
    by simp
qed

text \<open>Two batches, one completed and one failed: every batch is terminal, and the job
  is reported as \<open>processing\<close>.\<close>

theorem status_partial_failure_counterexample:
  "batchKeys (exampleStore completedBatch failedBatch) (''job1'', 0) = Some completedBatch
   \<and> batchKeys (exampleStore completedBatch failedBatch) (''job1'', 1) = Some failedBatch
   \<and> batchState completedBatch = ''completed'' \<and> batchState failedBatch = ''failed''
   \<and> totalBatches exampleSession = Some 2
   \<and> map_sum id overallStatus (getStatusRoute ''acme'' ''job1'' (exampleStore completedBatch failedBatch))
       = Inr ''processing''"
  by (simp add: exampleStore_def completedBatch_def failedBatch_def exampleSession_def
        getStatusRoute_def getOnboardingStatus_def getOnboardingKey_def getBatchKey_def
        collectBatchStatuses_eq upt_rec map_filter_simps)

text \<open>
  Claim C10. The result of \<open>getOnboardingStatus\<close> does not depend on its tenant
  argument: the session and the batch statuses are looked up by \<open>onboardingId\<close> alone.
  In particular a tenant \<open>t2\<close> reads the session that \<open>createOnboardingSession\<close> stored for
  a tenant \<open>t1\<close>.
\<close>

theorem status_independent_of_tenant:
  "getOnboardingStatus t1 oid r = getOnboardingStatus t2 oid r
   \<and> (isConnected r \<longrightarrow>
        (\<exists>st. getOnboardingStatus t2 oid (createOnboardingSession t1 oid f sz opts now r) = Inr st
              \<and> tenantId (sessionData st) = t1))"
  by (simp add: getOnboardingStatus_def createOnboardingSession_def setexOnboardingKey_def
        getOnboardingKey_def)

theorem status_independent_of_tenant_witness:
  "isConnected (redisStore exampleWorld)
   \<and> map_sum id (tenantId \<circ> sessionData)
        (getOnboardingStatus ''globex'' ''job9''
           (createOnboardingSession ''acme'' ''job9'' ''roster.csv'' 2048
              \<lparr>sendWelcomeEmails = None, autoActivate = None, dryRun = None\<rparr> 5
              (redisStore exampleWorld)))
       = Inr ''acme''"
  using status_independent_of_tenant[of "''acme''" "''job9''" "redisStore exampleWorld" "''globex''"
      "''roster.csv''" 2048 "\<lparr>sendWelcomeEmails = None, autoActivate = None, dryRun = None\<rparr>" 5]
  by (auto simp add: exampleWorld_def)

subsection \<open>The validator\<close>

text \<open>The capacity test reads a property the tenant row does not have, so it rejects
  no row, whatever the tenant's limit and the number of records accepted so far.\<close>

lemma checkCapacity_never_rejects: "checkCapacity t accepted = []"
  by (simp add: checkCapacity_def numberProperty_def)

lemma valid_roster_emails:
  "isValidEmail ''ada@x.com''" "isValidEmail ''bob@x.com''" "isValidEmail ''cy@x.com''"
  by (simp_all add: isValidEmail_def isSpaceOrAt_def upt_rec)

text \<open>
  Claim C5 does not hold of the code. The tenant \<open>acme\<close> has a capacity of one employee
  (\<open>max_employees = 1\<close>) and the roster has three valid rows. After the first row the
  capacity is reached, yet the second and the third row are accepted as well: no row is
  rejected and no reason \<open>Exceeds tenant employee limit\<close> is given. The existence check
  is made for all three rows, the third included.
\<close>

theorem capacity_limit_not_enforced:
  "map max_employees (companies capacityOne) = [1]
   \<and> map_sum id (map (email \<circ> validRecord) \<circ> validEmployees) capacityValidation
     = Inr [Some ''ada@x.com'', Some ''bob@x.com'', Some ''cy@x.com'']
   \<and> map_sum id invalidEmployees capacityValidation = Inr []
   \<and> map_sum id errors capacityValidation = Inr []
   \<and> map_sum id existenceChecks capacityValidation
     = Inr [''ada@x.com'', ''bob@x.com'', ''cy@x.com'']"
  by (simp add: capacityValidation_def validateEmployeeData_def getTenantConfig_def
        capacityOne_def exampleDatabase_def
        validateRow_def checkExists_def checkEmail_def checkNames_def
        checkCapacity_never_rejects checkExistingEmployee_def recordRow_def
        rosterEmployee_def truthy_def valid_roster_emails)

subsection \<open>The upload entry point\<close>

lemma recordRow_itemized:
  "itemized st \<Longrightarrow> itemized (recordRow index emp rowErrs st)"
  by (simp add: itemized_def recordRow_def rowErrorLine_def)

lemma recordRow_count:
  "length (validEmployees (recordRow index emp rowErrs st))
     + length (invalidEmployees (recordRow index emp rowErrs st))
   = Suc (length (validEmployees st) + length (invalidEmployees st))"
  by (simp add: recordRow_def)

lemma validateRow_InrD:
  assumes "validateRow tenant tenantKey d index emp st = Inr st'"
  shows "\<exists>rowErrs es cs.
           st' = recordRow index emp rowErrs (st\<lparr>emailSet := es, existenceChecks := cs\<rparr>)"
  using assms
  by (auto simp: validateRow_def split: prod.splits sum.splits option.splits)

lemma validateRow_step:
  assumes "validateRow tenant tenantKey d index emp st = Inr st'"
  shows "(itemized st \<longrightarrow> itemized st')
       \<and> length (validEmployees st') + length (invalidEmployees st')
           = Suc (length (validEmployees st) + length (invalidEmployees st))"
proof -
  from validateRow_InrD[OF assms] obtain rowErrs es cs where
    st': "st' = recordRow index emp rowErrs (st\<lparr>emailSet := es, existenceChecks := cs\<rparr>)"
    by blast
  have "itemized st \<Longrightarrow> itemized (st\<lparr>emailSet := es, existenceChecks := cs\<rparr>)"
    by (simp add: itemized_def)
  then show ?thesis
    unfolding st'
    using recordRow_itemized
      recordRow_count[of index emp rowErrs "st\<lparr>emailSet := es, existenceChecks := cs\<rparr>"]
    by auto
qed

lemma validateLoop_invariant:
  "validateLoop tenant tenantKey d index rows st = Inr st' \<Longrightarrow>
   (itemized st \<longrightarrow> itemized st')
   \<and> length (validEmployees st') + length (invalidEmployees st')
       = length (validEmployees st) + length (invalidEmployees st) + length rows"
proof (induction rows arbitrary: st index)
  case Nil
  then show ?case by simp
next
  case (Cons emp rest)
  then obtain st1 where r: "validateRow tenant tenantKey d index emp st = Inr st1"
    and l: "validateLoop tenant tenantKey d (Suc index) rest st1 = Inr st'"
    by (auto split: sum.splits)
  show ?case using validateRow_step[OF r] Cons.IH[OF l] by auto
qed

lemma validateEmployeeData_result:
  assumes "validateEmployeeData rows tenantKey d = Inr vr"
  shows "errors vr = map rowErrorLine (invalidEmployees vr)"
    and "length (validEmployees vr) + length (invalidEmployees vr) = length rows"
proof -
  from assms obtain tenant where
    l: "validateLoop tenant tenantKey d 0 rows
          \<lparr>validEmployees = [], invalidEmployees = [], errors = [], emailSet = {},
           existenceChecks = []\<rparr> = Inr vr"
    by (auto simp: validateEmployeeData_def split: sum.splits)
  from validateLoop_invariant[OF l]
  show "errors vr = map rowErrorLine (invalidEmployees vr)"
    and "length (validEmployees vr) + length (invalidEmployees vr) = length rows"
    by (simp_all add: itemized_def)
qed

lemma batchSize_pos: "0 < batchSize"
  by (simp add: batchSize_def)

text \<open>
  Claim C1, as amended. Validation examines every row of the roster and itemizes the
  rejected ones: each row ends up accepted or rejected, and \<open>errors\<close> has one entry
  \<open>Row n: reasons\<close> per rejected row. But \<open>processCSVUpload\<close> does not go on with the
  valid rows when a row is rejected: it throws \<open>Validation failed:\<close> followed by the
  itemized list, adds no job to the queue and marks the session \<open>failed\<close>. Only a roster
  without a rejected row is put on the queue in batches and answered with
  \<open>totalEmployees\<close>, \<open>totalBatches\<close> and \<open>invalidRecords = 0\<close>.
\<close>

theorem upload_fails_on_any_invalid_row:
  assumes "parsed csvFile = Inr rows"
    and "validateEmployeeData rows tenant (dbStore w) = Inr vr"
  shows "errors vr = map rowErrorLine (invalidEmployees vr)
       \<and> length (validEmployees vr) + length (invalidEmployees vr) = length rows
       \<and> (invalidEmployees vr \<noteq> [] \<longrightarrow>
            (\<exists>w'. processCSVUpload tenant csvFile opts now w =
                     Some (Inl (Error (''Validation failed: '' @ join '', '' (errors vr))), w')
                  \<and> employeeQueue w' = employeeQueue w \<and> dbStore w' = dbStore w
                  \<and> (isConnected (redisStore w) \<longrightarrow>
                       map_option status
                         (onboardingKeys (redisStore w')
                            (''onboarding_'' @ tenant @ ''_'' @ string_of_nat now))
                       = Some ''failed'')))
       \<and> (invalidEmployees vr = [] \<longrightarrow>
            (\<exists>resp w'. processCSVUpload tenant csvFile opts now w = Some (Inr resp, w')
                  \<and> respTotalEmployees resp = length rows
                  \<and> invalidRecords resp = 0
                  \<and> respTotalBatches resp = (length rows + batchSize - 1) div batchSize
                  \<and> length (employeeQueue w') = length (employeeQueue w) + respTotalBatches resp))"
proof -
  note res = validateEmployeeData_result[OF assms(2)]
  have p: "parseCSV csvFile = Inr rows" by (simp add: parseCSV_def assms(1))
  have bad: "\<exists>w'. processCSVUpload tenant csvFile opts now w =
                     Some (Inl (Error (''Validation failed: '' @ join '', '' (errors vr))), w')
                  \<and> employeeQueue w' = employeeQueue w \<and> dbStore w' = dbStore w
                  \<and> (isConnected (redisStore w) \<longrightarrow>
                       map_option status
                         (onboardingKeys (redisStore w')
                            (''onboarding_'' @ tenant @ ''_'' @ string_of_nat now))
                       = Some ''failed'')"
    if "invalidEmployees vr \<noteq> []"
  proof -
    have "errors vr \<noteq> []" using that res(1) by simp
    then show ?thesis
      by (simp add: processCSVUpload_def Let_def p assms(2) uploadFailed_def
            createOnboardingSession_def updateOnboardingSession_def setexOnboardingKey_def
            getOnboardingKey_def)
  qed
  have good: "\<exists>resp w'. processCSVUpload tenant csvFile opts now w = Some (Inr resp, w')
                  \<and> respTotalEmployees resp = length rows
                  \<and> invalidRecords resp = 0
                  \<and> respTotalBatches resp = (length rows + batchSize - 1) div batchSize
                  \<and> length (employeeQueue w') = length (employeeQueue w) + respTotalBatches resp"
    if "invalidEmployees vr = []"
  proof -
    have e: "errors vr = []" using that res(1) by simp
    have n: "length (validEmployees vr) = length rows" using that res(2) by simp
    show ?thesis
      by (simp add: processCSVUpload_def Let_def p assms(2) e
            createBatches_eq[OF batchSize_pos] n that)
  qed
  show ?thesis using res bad good by blast
qed

lemma isValidEmail_ada: "isValidEmail ''ada@x.com''"
  by (simp add: isValidEmail_def isSpaceOrAt_def upt_rec)

lemma string_of_nat_3: "string_of_nat (Suc (Suc (Suc 0))) = ''3''"
  by (simp add: string_of_nat.simps)

lemma string_of_nat_numeral_3: "string_of_nat 3 = ''3''"
  by (simp add: string_of_nat.simps)

lemma string_of_nat_5: "string_of_nat 5 = ''5''"
  by (simp add: string_of_nat.simps)

lemma validate_mixedRoster:
  "validateEmployeeData mixedRoster ''acme'' exampleDatabase =
     Inr \<lparr>validEmployees = [\<lparr>validRecord = rosterEmployee ''ada@x.com'', rowIndex = 2\<rparr>],
          invalidEmployees =
            [\<lparr>invalidRowIndex = 3,
              invalidRecord = (rosterEmployee ''bob@x.com'')\<lparr>email := None\<rparr>,
              rowErrors = [''Email is required'']\<rparr>],
          errors = [''Row 3: Email is required''],
          emailSet = {''ada@x.com''},
          existenceChecks = [''ada@x.com'']\<rparr>"
  by (simp add: validateEmployeeData_def getTenantConfig_def exampleDatabase_def mixedRoster_def
        validateRow_def checkExists_def checkEmail_def checkNames_def checkCapacity_never_rejects
        checkExistingEmployee_def recordRow_def rosterEmployee_def truthy_def
        isValidEmail_ada string_of_nat_3)

lemma validate_single:
  "validateEmployeeData [rosterEmployee ''ada@x.com''] ''acme'' exampleDatabase =
     Inr \<lparr>validEmployees = [\<lparr>validRecord = rosterEmployee ''ada@x.com'', rowIndex = 2\<rparr>],
          invalidEmployees = [], errors = [],
          emailSet = {''ada@x.com''},
          existenceChecks = [''ada@x.com'']\<rparr>"
  by (simp add: validateEmployeeData_def getTenantConfig_def exampleDatabase_def
        validateRow_def checkExists_def checkEmail_def checkNames_def checkCapacity_never_rejects
        checkExistingEmployee_def recordRow_def rosterEmployee_def truthy_def
        isValidEmail_ada)

lemma email_rosterEmployee: "email (rosterEmployee e) = Some e"
  by (simp add: rosterEmployee_def)

lemma createBatches_single: "createBatches [x] batchSize = Some [[x]]"
proof -
  have n: "(length [x] + batchSize - 1) div batchSize = 1" by (simp add: batchSize_def)
  show ?thesis
    unfolding createBatches_eq[OF batchSize_pos] n
    by (simp add: slice_def batchSize_def)
qed

theorem upload_fails_on_any_invalid_row_witness:
  "parsed (exampleCsv mixedRoster) = Inr mixedRoster
   \<and> (\<exists>w'. processCSVUpload ''acme'' (exampleCsv mixedRoster) noOptions 5 exampleWorld =
              Some (Inl (Error ''Validation failed: Row 3: Email is required''), w')
            \<and> employeeQueue w' = [])
   \<and> parsed (exampleCsv [rosterEmployee ''ada@x.com'']) = Inr [rosterEmployee ''ada@x.com'']
   \<and> (\<exists>resp w'. processCSVUpload ''acme'' (exampleCsv [rosterEmployee ''ada@x.com'']) noOptions 5
                    exampleWorld = Some (Inr resp, w')
            \<and> respTotalEmployees resp = 1 \<and> invalidRecords resp = 0
            \<and> respTotalBatches resp = 1 \<and> length (employeeQueue w') = 1)"
proof -
  have p1: "parsed (exampleCsv mixedRoster) = Inr mixedRoster" by (simp add: exampleCsv_def)
  have v1: "validateEmployeeData mixedRoster ''acme'' (dbStore exampleWorld) =
     Inr \<lparr>validEmployees = [\<lparr>validRecord = rosterEmployee ''ada@x.com'', rowIndex = 2\<rparr>],
          invalidEmployees =
            [\<lparr>invalidRowIndex = 3,
              invalidRecord = (rosterEmployee ''bob@x.com'')\<lparr>email := None\<rparr>,
              rowErrors = [''Email is required'']\<rparr>],
          errors = [''Row 3: Email is required''],
          emailSet = {''ada@x.com''},
          existenceChecks = [''ada@x.com'']\<rparr>"
    by (simp add: exampleWorld_def validate_mixedRoster)
  have p2: "parsed (exampleCsv [rosterEmployee ''ada@x.com'']) = Inr [rosterEmployee ''ada@x.com'']"
    by (simp add: exampleCsv_def)
  have v2: "validateEmployeeData [rosterEmployee ''ada@x.com''] ''acme'' (dbStore exampleWorld) =
     Inr \<lparr>validEmployees = [\<lparr>validRecord = rosterEmployee ''ada@x.com'', rowIndex = 2\<rparr>],
          invalidEmployees = [], errors = [],
          emailSet = {''ada@x.com''},
          existenceChecks = [''ada@x.com'']\<rparr>"
    by (simp add: exampleWorld_def validate_single)
  have e: "employeeQueue exampleWorld = []" by (simp add: exampleWorld_def)
  show ?thesis
    using upload_fails_on_any_invalid_row[OF p1 v1, of noOptions 5]
      upload_fails_on_any_invalid_row[OF p2 v2, of noOptions 5] p1 p2
    by (auto simp add: e batchSize_def rowErrorLine_def string_of_nat_numeral_3)
qed

text \<open>A roster with one valid row and one row without an email: the upload throws,
  nothing is queued, and the session is marked \<open>failed\<close>.\<close>

theorem upload_mixed_roster_counterexample:
  "map_option fst mixedUpload
     = Some (Inl (Error ''Validation failed: Row 3: Email is required''))
   \<and> map_option (employeeQueue \<circ> snd) mixedUpload = Some []
   \<and> map_option (sessionStatusOf ''onboarding_acme_5'' \<circ> snd) mixedUpload
     = Some (Some ''failed'')"
  by (simp add: mixedUpload_def processCSVUpload_def parseCSV_def exampleCsv_def exampleWorld_def
        Let_def validate_mixedRoster uploadFailed_def createOnboardingSession_def
        updateOnboardingSession_def setexOnboardingKey_def getOnboardingKey_def
        string_of_nat_5 sessionStatusOf_def)

text \<open>
  Claim C2 does not hold of the code: \<open>processCSVUpload\<close> never reads \<open>options.dryRun\<close>.
  An upload of one valid row with \<open>dryRun: true\<close> stores an onboarding session, which
  ends in the status \<open>processing\<close>, and puts the batch on the queue, with the option
  \<open>dryRun\<close> passed along unread.
\<close>

theorem dryRun_upload_creates_session_and_queues_batch:
  "map_option (map_sum id respStatus \<circ> fst) dryRunUpload = Some (Inr ''processing'')
   \<and> map_option (sessionStatusOf ''onboarding_acme_5'' \<circ> snd) dryRunUpload
     = Some (Some ''processing'')
   \<and> map_option (map batchIndex \<circ> employeeQueue \<circ> snd) dryRunUpload = Some [0]
   \<and> map_option (map (map (email \<circ> validRecord) \<circ> jobEmployees) \<circ> employeeQueue \<circ> snd)
       dryRunUpload = Some [[Some ''ada@x.com'']]
   \<and> map_option (map (dryRun \<circ> jobOptions) \<circ> employeeQueue \<circ> snd) dryRunUpload
     = Some [Some True]"
  by (simp add: dryRunUpload_def processCSVUpload_def parseCSV_def exampleCsv_def
        exampleWorld_def Let_def validate_single createOnboardingSession_def
        updateOnboardingSession_def setexOnboardingKey_def getOnboardingKey_def
        string_of_nat_5 createBatches_single email_rosterEmployee sessionStatusOf_def)

subsection \<open>The provisioner\<close>

lemma createAppAssignment_InrD:
  assumes "createAppAssignment tenant empId recm d = Inr (a, d')"
  shows "\<exists>name. app recm = Some name
          \<and> \<not> list_ex (\<lambda>row. employee_id row = empId \<and> app_name row = name) (app_assignments d)
          \<and> dbConnected d'
          \<and> app_assignments d' = app_assignments d
               @ [\<lparr>assignmentId = nextId d, employee_id = empId, app_name = name,
                   access_level = ''basic'',
                   appConfig = \<lparr>configPriority = priority recm, configReason = reason recm,
                                autoProvisioned = True\<rparr>,
                   assignmentStatus = ''active'', assigned_to_spouse = False,
                   spouse_email = None\<rparr>]
          \<and> name \<in> set validApps"
  using assms
  by (auto simp: createAppAssignment_def split: if_splits option.splits)

text \<open>
  Claim C4, as amended. After \<open>createAppAssignment\<close> has stored an assignment for
  \<open>(employeeId, appName)\<close>, a second call for the same pair is an error: the insert
  violates \<open>unique_employee_app\<close> and changes nothing, so the stored configuration is
  that of the first call. \<open>provisionAppAccess\<close> catches and logs the error and returns
  no assignment for it. Exactly one active assignment exists for the pair.
\<close>

theorem reprovision_is_unique_violation:
  assumes "createAppAssignment tenant empId recm d = Inr (a, d')"
    and "app recm' = app recm"
  shows "createAppAssignment tenant empId recm' d' = Inl (UniqueViolation ''unique_employee_app'')
       \<and> provisionAppAccess tenant empId [recm'] emp d' =
           \<lparr>assignments = [], provisionedDb = d',
            loggedErrors = [UniqueViolation ''unique_employee_app'']\<rparr>
       \<and> length (filter (\<lambda>row. employee_id row = empId \<and> Some (app_name row) = app recm
                               \<and> assignmentStatus row = ''active'')
                  (app_assignments d')) = 1"
proof -
  from createAppAssignment_InrD[OF assms(1)] obtain name where
    n: "app recm = Some name"
    and fresh: "\<not> list_ex (\<lambda>row. employee_id row = empId \<and> app_name row = name) (app_assignments d)"
    and conn: "dbConnected d'"
    and rows: "app_assignments d' = app_assignments d
               @ [\<lparr>assignmentId = nextId d, employee_id = empId, app_name = name,
                   access_level = ''basic'',
                   appConfig = \<lparr>configPriority = priority recm, configReason = reason recm,
                                autoProvisioned = True\<rparr>,
                   assignmentStatus = ''active'', assigned_to_spouse = False,
                   spouse_email = None\<rparr>]"
    and cat: "name \<in> set validApps"
    by blast
  have second: "createAppAssignment tenant empId recm' d' = Inl (UniqueViolation ''unique_employee_app'')"
    using n conn cat assms(2) by (simp add: createAppAssignment_def rows)
  have none: "filter (\<lambda>row. employee_id row = empId \<and> app_name row = name
                               \<and> assignmentStatus row = ''active'') (app_assignments d) = []"
    using fresh unfolding list_ex_iff filter_empty_conv by auto
  have one: "length (filter (\<lambda>row. employee_id row = empId \<and> Some (app_name row) = app recm
                               \<and> assignmentStatus row = ''active'')
                  (app_assignments d')) = 1"
    by (simp add: rows none n)
  show ?thesis
    using second one by (simp add: provisionAppAccess_def)
qed

theorem reprovision_is_unique_violation_witness:
  "(case createAppAssignment ''acme'' 7 (soberRec ''high'') exampleDatabase of
      Inl e \<Rightarrow> False
    | Inr (a, d') \<Rightarrow>
        createAppAssignment ''acme'' 7 (soberRec ''low'') d'
          = Inl (UniqueViolation ''unique_employee_app'')
        \<and> length (filter (\<lambda>row. employee_id row = 7
                                \<and> Some (app_name row) = app (soberRec ''high'')
                                \<and> assignmentStatus row = ''active'')
                   (app_assignments d')) = 1)"
proof -
  obtain a d' where first: "createAppAssignment ''acme'' 7 (soberRec ''high'') exampleDatabase = Inr (a, d')"
    by (simp add: createAppAssignment_def soberRec_def exampleDatabase_def validApps_def)
  have same: "app (soberRec ''low'') = app (soberRec ''high'')" by (simp add: soberRec_def)
  show ?thesis
    using reprovision_is_unique_violation[OF first same, of "rosterEmployee ''old@x.com''"]
    by (simp add: first)
qed

text \<open>Provisioning \<open>soberpal\<close> twice for employee 7, the second time with another
  priority: the second call yields no assignment and logs the violation, and the
  stored configuration keeps the first priority.\<close>

theorem reprovision_counterexample:
  "map resultAppName (assignments firstProvision) = [''soberpal'']
   \<and> assignments secondProvision = []
   \<and> loggedErrors secondProvision = [UniqueViolation ''unique_employee_app'']
   \<and> map (configPriority \<circ> appConfig) (app_assignments (provisionedDb secondProvision))
     = [Some ''high'']"
  by (simp add: firstProvision_def secondProvision_def provisionAppAccess_def
        createAppAssignment_def soberRec_def exampleDatabase_def
        validApps_def rosterEmployee_def truthy_def Let_def)

text \<open>
  Claim C3 does not hold of the code. For a recommendation with \<open>includeSpouse\<close> and an
  employee with a spouse email, \<open>provisionAppAccess\<close> stores the employee's own
  assignment, then the call of the undefined \<open>createSpouseAppAssignment\<close> throws; the
  error is caught and logged, and no assignment for the spouse exists afterwards.
\<close>

theorem spouse_assignment_not_created:
  "recIncludeSpouse partnerRec \<and> spouseEmail menopauseEmployee = Some ''sam@x.com''
   \<and> provisionAppAccess ''acme'' 7 [partnerRec] menopauseEmployee exampleDatabase =
     \<lparr>assignments =
        [\<lparr>resultId = 100, resultAppName = ''supportpartner'', resultAccessLevel = ''basic''\<rparr>],
      provisionedDb =
        exampleDatabase
          \<lparr>app_assignments :=
             [\<lparr>assignmentId = 100, employee_id = 7, app_name = ''supportpartner'',
               access_level = ''basic'',
               appConfig = \<lparr>configPriority = Some ''medium'',
                            configReason = Some ''Partner support during menopause transition'',
                            autoProvisioned = True\<rparr>,
               assignmentStatus = ''active'', assigned_to_spouse = False, spouse_email = None\<rparr>],
           nextId := 101\<rparr>,
      loggedErrors = [TypeError ''this.createSpouseAppAssignment is not a function'']\<rparr>"
  by (simp add: provisionAppAccess_def createAppAssignment_def createSpouseAppAssignment_def
        partnerRec_def menopauseEmployee_def rosterEmployee_def exampleDatabase_def
        validApps_def truthy_def Let_def)

end
